theory Spec2Isabelle
  imports Complex_Main "HOL-Library.Sublist"
begin

section \<open>JavaScript values\<close>

text \<open>
  The plugin of \<^verbatim>\<open>lib/index.js\<close> is dynamically typed: options, front matter and the
  records of the JSON side file are arbitrary JavaScript values, tested with
  \<^verbatim>\<open>!x\<close>, \<^verbatim>\<open>x || y\<close> and \<^verbatim>\<open>x ? a : b\<close>. The model keeps the values the
  plugin can tell apart. A number is \<open>NaN\<close>, an infinity, or a finite value, kept as
  the rational it denotes (the plugin does no arithmetic; \<open>+0\<close> and \<open>-0\<close>, both falsy,
  are one value). An object is the list of its own properties in insertion order, the
  order that \<^verbatim>\<open>Object.keys\<close> and \<^verbatim>\<open>for ... in\<close> follow for keys that are not array
  indices (file paths and field names are not). A \<open>Date\<close> object holds its time value
  in milliseconds, \<open>None\<close> when it is invalid.
\<close>

datatype jsnum = NaN | Fin rat | PosInf | NegInf

datatype jsval =
    Undefined
  | Null
  | Bool bool
  | Num jsnum
  | Str string
  | Arr "jsval list"
  | Obj "(string \<times> jsval) list"
  | Date "int option"
  | Buffer string

text \<open>
  What the code can throw: \<open>Error msg\<close> is the plugin's own \<^verbatim>\<open>throw new Error(msg)\<close>,
  \<open>TypeError\<close> is a property read on \<^verbatim>\<open>null\<close> or \<^verbatim>\<open>undefined\<close> (or a path
  function given a non-string), \<open>LibError\<close> is whatever a required library throws.
\<close>

datatype error = Error string | TypeError | LibError string

text \<open>ToBoolean: the falsy values are undefined, null, false, 0, NaN and the empty string.\<close>

fun js_truthy :: "jsval \<Rightarrow> bool" where
  "js_truthy Undefined = False"
| "js_truthy Null = False"
| "js_truthy (Bool b) = b"
| "js_truthy (Num n) = (n \<noteq> NaN \<and> n \<noteq> Fin 0)"
| "js_truthy (Str s) = (s \<noteq> [])"
| "js_truthy (Arr xs) = True"
| "js_truthy (Obj kvs) = True"
| "js_truthy (Date t) = True"
| "js_truthy (Buffer s) = True"

text \<open>\<^verbatim>\<open>a || b\<close>: the left operand when it is truthy, else the right one.\<close>

definition js_or :: "jsval \<Rightarrow> jsval \<Rightarrow> jsval" where
  "js_or a b = (if js_truthy a then a else b)"

text \<open>
  \<^verbatim>\<open>o.k\<close> for the property names the plugin reads (\<^verbatim>\<open>hostname\<close>, \<^verbatim>\<open>private\<close>,
  \<^verbatim>\<open>priority\<close>, ...), none of which a built-in prototype defines: the own property of
  an object, \<^verbatim>\<open>undefined\<close> when it is missing or the receiver is a primitive, an array
  or a buffer. On \<^verbatim>\<open>null\<close> and \<^verbatim>\<open>undefined\<close> the read throws a TypeError.
\<close>

definition member :: "jsval \<Rightarrow> string \<Rightarrow> jsval" where
  "member v k =
     (case v of
        Obj kvs \<Rightarrow> (case map_of kvs k of Some x \<Rightarrow> x | None \<Rightarrow> Undefined)
      | _ \<Rightarrow> Undefined)"

definition get :: "jsval \<Rightarrow> string \<Rightarrow> error + jsval" where
  "get v k = (if v = Undefined \<or> v = Null then Inl TypeError else Inr (member v k))"

text \<open>\<^verbatim>\<open>k in o\<close> and \<^verbatim>\<open>o[k] = v\<close> on an object held as its property list.\<close>

definition has_key :: "(string \<times> jsval) list \<Rightarrow> string \<Rightarrow> bool" where
  "has_key kvs k = (k \<in> set (map fst kvs))"

fun assign :: "(string \<times> jsval) list \<Rightarrow> string \<Rightarrow> jsval \<Rightarrow> (string \<times> jsval) list" where
  "assign [] k v = [(k, v)]"
| "assign ((k', v') # kvs) k v =
     (if k' = k then (k, v) # kvs else (k', v') # assign kvs k v)"

section \<open>The required libraries\<close>

text \<open>
  The plugin requires \<^verbatim>\<open>slash\<close>, \<^verbatim>\<open>path\<close>, \<^verbatim>\<open>multimatch\<close>, \<^verbatim>\<open>sitemap\<close> and
  \<^verbatim>\<open>fs\<close>, and uses the built-ins \<^verbatim>\<open>isNaN\<close>, \<^verbatim>\<open>Date\<close>, \<^verbatim>\<open>JSON\<close> and string
  concatenation. Their code is not part of the repository, so the model takes them as
  a parameter \<open>L\<close>: the general theorems below hold for any such libraries, and the
  concrete runs use the reference instance defined further down.

  \<^item> \<open>slash\<close>, \<open>basename\<close>, \<open>extname\<close>: \<^verbatim>\<open>slash(p)\<close>, \<^verbatim>\<open>path.basename(p)\<close>,
    \<^verbatim>\<open>path.extname(p)\<close> on a string.
  \<^item> \<open>match\<close>: \<^verbatim>\<open>match(file, pattern)\<close> of multimatch, the list of the paths that
    matched (it may throw on a pattern that is no glob).
  \<^item> \<open>coerced_isNaN\<close>: whether ToNumber of a string or an object is NaN.
  \<^item> \<open>coerced_string\<close>: ToString of a value that is not a string.
  \<^item> \<open>date_value\<close>: the time value of \<^verbatim>\<open>new Date(v)\<close> in milliseconds for a \<open>v\<close>
    that is not a \<open>Date\<close>, \<open>None\<close> when it is NaN (the date is invalid);
    \<open>utc_string\<close>: the HTTP-date of a time value.
  \<^item> \<open>read_json\<close>: \<^verbatim>\<open>JSON.parse(fs.readFileSync(p, 'utf8'))\<close>, which throws when the
    file is missing or is not JSON.
  \<^item> \<open>sitemap_toString\<close>: \<^verbatim>\<open>toString()\<close> of the sitemap created for a hostname, after
    the given entries were added in order (it may throw on an entry it refuses).
\<close>

record libs =
  slash :: "string \<Rightarrow> string"
  basename :: "string \<Rightarrow> string"
  extname :: "string \<Rightarrow> string"
  match :: "string \<Rightarrow> jsval \<Rightarrow> error + string list"
  coerced_isNaN :: "jsval \<Rightarrow> bool"
  coerced_string :: "jsval \<Rightarrow> string"
  date_value :: "jsval \<Rightarrow> int option"
  utc_string :: "int \<Rightarrow> string"
  read_json :: "string \<Rightarrow> error + jsval"
  sitemap_toString :: "jsval \<Rightarrow> jsval list \<Rightarrow> error + string"

text \<open>
  The global \<^verbatim>\<open>isNaN(v)\<close>: ToNumber of undefined is NaN, of null and of a boolean it
  is 0 or 1, a number is itself, of a \<open>Date\<close> it is the time value; strings and other
  objects are coerced by the host.
\<close>

fun js_isNaN :: "libs \<Rightarrow> jsval \<Rightarrow> bool" where
  "js_isNaN L Undefined = True"
| "js_isNaN L Null = False"
| "js_isNaN L (Bool b) = False"
| "js_isNaN L (Num n) = (n = NaN)"
| "js_isNaN L (Date t) = (t = None)"
| "js_isNaN L v = coerced_isNaN L v"

text \<open>ToString, as the operator \<^verbatim>\<open>+\<close> with a string operand and a property key apply it.\<close>

fun js_string :: "libs \<Rightarrow> jsval \<Rightarrow> string" where
  "js_string L (Str s) = s"
| "js_string L v = coerced_string L v"

text \<open>
  \<^verbatim>\<open>new Date(v)\<close> copies the time value of a \<open>Date\<close> and parses or converts any other
  value; \<^verbatim>\<open>toUTCString()\<close> renders an invalid date as \<^verbatim>\<open>Invalid Date\<close> (it never
  throws).
\<close>

definition new_Date :: "libs \<Rightarrow> jsval \<Rightarrow> int option" where
  "new_Date L v = (case v of Date t \<Rightarrow> t | _ \<Rightarrow> date_value L v)"

definition toUTCString :: "libs \<Rightarrow> int option \<Rightarrow> string" where
  "toUTCString L d = (case d of None \<Rightarrow> ''Invalid Date'' | Some t \<Rightarrow> utc_string L t)"

section \<open>Plugin construction\<close>

text \<open>
  The local variables of \<^verbatim>\<open>plugin(opts)\<close> that the returned function closes over
  (\<open>output_file\<close> is the variable \<^verbatim>\<open>output\<close>).
\<close>

record config =
  changefreq :: jsval
  hostname :: jsval
  lastmod :: jsval
  omitExtension :: jsval
  omitIndex :: jsval
  output_file :: jsval
  pattern :: jsval
  priority :: jsval
  staticURLs :: jsval

text \<open>
  Lines 37-42: \<^verbatim>\<open>opts = opts || {}\<close>, and a string stands for \<^verbatim>\<open>{ hostname: opts }\<close>.
\<close>

definition init_opts :: "jsval \<Rightarrow> jsval" where
  "init_opts opts0 =
     (let opts = js_or opts0 (Obj [])
      in case opts of Str s \<Rightarrow> Obj [(''hostname'', Str s)] | _ \<Rightarrow> opts)"

text \<open>
  Line 49: \<^verbatim>\<open>opts.jsonFile && path.extname(opts.jsonFile) != '.json'\<close>. The extension
  is read only when \<^verbatim>\<open>jsonFile\<close> is truthy; \<^verbatim>\<open>path.extname\<close> throws a TypeError on
  a value that is not a string (Node 6 and later).
\<close>

definition jsonFile_rejected :: "libs \<Rightarrow> jsval \<Rightarrow> error + bool" where
  "jsonFile_rejected L jf =
     (if js_truthy jf
      then (case jf of Str s \<Rightarrow> Inr (extname L s \<noteq> ''.json'') | _ \<Rightarrow> Inl TypeError)
      else Inr False)"

text \<open>
  Lines 33-62. The result is the error thrown, or the configuration of the returned
  function. Nothing here takes the files: they reach only the returned function.
\<close>

definition plugin :: "libs \<Rightarrow> jsval \<Rightarrow> error + config" where
  \<open>plugin L opts0 =
     (let opts = init_opts opts0
      in if \<not> js_truthy (member opts ''hostname'')
         then Inl (Error ''"hostname" option required'')
         else (case jsonFile_rejected L (member opts ''jsonFile'') of
                 Inl e \<Rightarrow> Inl e
               | Inr True \<Rightarrow>
                   Inl (Error ''"jsonFile" must point to a JSON file with extension .json'')
               | Inr False \<Rightarrow>
                   Inr \<lparr> changefreq = js_or (member opts ''changefreq'') (Str ''weekly''),
                         hostname = member opts ''hostname'',
                         lastmod = member opts ''lastmod'',
                         omitExtension = member opts ''omitExtension'',
                         omitIndex = member opts ''omitIndex'',
                         output_file = js_or (member opts ''output'') (Str ''sitemap.xml''),
                         pattern = js_or (member opts ''pattern'') (Str ''**/*.html''),
                         priority =
                           (if js_isNaN L (member opts ''priority'')
                            then Num (Fin (1 / 2)) else member opts ''priority''),
                         staticURLs = js_or (member opts ''jsonFile'') (Bool False) \<rparr>))\<close>

text \<open>
  The configuration that lines 54-62 make for a bare hostname \<open>h\<close>: every option at
  its default.
\<close>

definition default_config :: "string \<Rightarrow> config" where
  "default_config h =
     \<lparr> changefreq = Str ''weekly'', hostname = Str h, lastmod = Undefined,
       omitExtension = Undefined, omitIndex = Undefined, output_file = Str ''sitemap.xml'',
       pattern = Str ''**/*.html'', priority = Num (Fin (1 / 2)), staticURLs = Bool False \<rparr>"

section \<open>The main plugin function\<close>

text \<open>Lines 64-70: \<^verbatim>\<open>chompRight\<close>, with \<^verbatim>\<open>endsWith\<close> as \<^const>\<open>suffix\<close>.\<close>

definition chompRight :: "string \<Rightarrow> string \<Rightarrow> string" where
  "chompRight input sfx =
     (if suffix sfx input then take (length input - length sfx) input else input)"

text \<open>
  Lines 82-94: \<^verbatim>\<open>check\<close>. \<^verbatim>\<open>match(file, pattern)[0]\<close> is the first path that matched,
  \<^verbatim>\<open>undefined\<close> when none did. The front matter is read only for a file that matched.
\<close>

definition first_match :: "string list \<Rightarrow> jsval" where
  "first_match ms = (case ms of [] \<Rightarrow> Undefined | m # _ \<Rightarrow> Str m)"

definition check :: "libs \<Rightarrow> config \<Rightarrow> string \<Rightarrow> jsval \<Rightarrow> error + bool" where
  "check L cfg file frontmatter =
     (case match L file (pattern cfg) of
        Inl e \<Rightarrow> Inl e
      | Inr ms \<Rightarrow>
          if \<not> js_truthy (first_match ms) then Inr False
          else (case get frontmatter ''private'' of
                  Inl e \<Rightarrow> Inl e
                | Inr p \<Rightarrow> if js_truthy p then Inr False else Inr True))"

text \<open>
  Lines 97-123: \<^verbatim>\<open>buildUrl\<close>. The variable \<^verbatim>\<open>r\<close> starts as the empty string, and
  each rule is guarded by \<^verbatim>\<open>!r\<close>: \<open>r1\<close>, \<open>r2\<close>, \<open>r3\<close>, \<open>r4\<close> are its values after
  the four rules, \<open>url_base\<close>, and the result appends the slash.
\<close>

definition is_string :: "jsval \<Rightarrow> bool" where
  "is_string v = (case v of Str s \<Rightarrow> True | _ \<Rightarrow> False)"

definition url_base :: "libs \<Rightarrow> config \<Rightarrow> string \<Rightarrow> jsval \<Rightarrow> string" where
  "url_base L cfg file canonical =
     (let normalizedFile = slash L file;
          r0 = [];
          r1 = (if r0 = [] \<and> is_string canonical then js_string L canonical else r0);
          r2 = (if r1 = [] \<and> js_truthy (omitIndex cfg)
                   \<and> basename L normalizedFile = ''index.html''
                then chompRight normalizedFile ''index.html'' else r1);
          r3 = (if r2 = [] \<and> js_truthy (omitExtension cfg)
                then chompRight normalizedFile (extname L normalizedFile) else r2);
          r4 = (if r3 = [] then normalizedFile else r3)
      in r4)"

definition buildUrl :: "libs \<Rightarrow> config \<Rightarrow> string \<Rightarrow> jsval \<Rightarrow> error + string" where
  "buildUrl L cfg file frontmatter =
     (case get frontmatter ''canonical'' of
        Inl e \<Rightarrow> Inl e
      | Inr canonical \<Rightarrow>
          (let r = url_base L cfg file canonical
           in Inr (if \<not> suffix ''/'' r then r @ ''/'' else r)))"

text \<open>
  Lines 135-143, and again 161-169: the entry of a record. \<^verbatim>\<open>pickby\<close> keeps the
  properties whose value passes the predicate, here \<^verbatim>\<open>!isundefined(item)\<close>; a
  \<^verbatim>\<open>lastmod\<close> that was kept is replaced by its HTTP-date.
\<close>

definition pickby :: "(string \<times> jsval) list \<Rightarrow> (jsval \<Rightarrow> bool) \<Rightarrow> (string \<times> jsval) list" where
  "pickby kvs keep = filter (\<lambda>(k, v). keep v) kvs"

definition isundefined :: "jsval \<Rightarrow> bool" where
  "isundefined v = (v = Undefined)"

definition make_entry :: "libs \<Rightarrow> config \<Rightarrow> jsval \<Rightarrow> error + (string \<times> jsval) list" where
  "make_entry L cfg frontmatter =
     (case get frontmatter ''changefreq'' of Inl e \<Rightarrow> Inl e | Inr cf \<Rightarrow>
     (case get frontmatter ''priority'' of Inl e \<Rightarrow> Inl e | Inr pr \<Rightarrow>
     (case get frontmatter ''lastmod'' of Inl e \<Rightarrow> Inl e | Inr lm \<Rightarrow>
        (let entry = pickby [(''changefreq'', js_or cf (changefreq cfg)),
                             (''priority'', js_or pr (priority cfg)),
                             (''lastmod'', js_or lm (lastmod cfg))]
                            (\<lambda>item. \<not> isundefined item)
         in Inr (if has_key entry ''lastmod''
                 then assign entry ''lastmod''
                        (Str (toUTCString L (new_Date L (member (Obj entry) ''lastmod''))))
                 else entry)))))"

text \<open>
  Lines 125-150: the body of the \<^verbatim>\<open>forEach\<close> for one file, \<open>None\<close> when the file
  is skipped, and the loop over \<^verbatim>\<open>Object.keys(files)\<close>, the files in their order.
  A throw ends the loop.
\<close>

definition file_entry :: "libs \<Rightarrow> config \<Rightarrow> string \<Rightarrow> jsval \<Rightarrow> error + jsval option" where
  "file_entry L cfg file frontmatter =
     (case check L cfg file frontmatter of Inl e \<Rightarrow> Inl e | Inr ok \<Rightarrow>
      if \<not> ok then Inr None
      else (case make_entry L cfg frontmatter of Inl e \<Rightarrow> Inl e | Inr entry \<Rightarrow>
           (case buildUrl L cfg file frontmatter of Inl e \<Rightarrow> Inl e | Inr u \<Rightarrow>
              Inr (Some (Obj (assign entry ''url'' (Str u)))))))"

fun file_entries :: "libs \<Rightarrow> config \<Rightarrow> (string \<times> jsval) list \<Rightarrow> error + jsval list" where
  "file_entries L cfg [] = Inr []"
| "file_entries L cfg ((file, frontmatter) # rest) =
     (case file_entry L cfg file frontmatter of Inl e \<Rightarrow> Inl e | Inr added \<Rightarrow>
     (case file_entries L cfg rest of Inl e \<Rightarrow> Inl e | Inr es \<Rightarrow>
        Inr (case added of None \<Rightarrow> es | Some entry \<Rightarrow> entry # es)))"

text \<open>
  Lines 153-177: the records of the JSON file. \<^verbatim>\<open>for (var i in staticObjects)\<close> visits
  the elements of an array, the property values of an object and the characters of a
  string, and nothing of any other value that \<^verbatim>\<open>JSON.parse\<close> returns. The file is
  read only when \<^verbatim>\<open>staticURLs\<close> is truthy; a configuration that \<open>plugin\<close> returned has
  a string there.
\<close>

fun for_in :: "jsval \<Rightarrow> jsval list" where
  "for_in (Arr xs) = xs"
| "for_in (Obj kvs) = map (\<lambda>k. member (Obj kvs) k) (remdups (map fst kvs))"
| "for_in (Str s) = map (\<lambda>c. Str [c]) s"
| "for_in v = []"

definition static_url :: "libs \<Rightarrow> config \<Rightarrow> jsval \<Rightarrow> string" where
  "static_url L cfg p =
     (if js_truthy p then (js_string L (hostname cfg) @ ''/'') @ js_string L p else [])"

definition static_entry :: "libs \<Rightarrow> config \<Rightarrow> jsval \<Rightarrow> error + jsval" where
  "static_entry L cfg frontmatter =
     (case make_entry L cfg frontmatter of Inl e \<Rightarrow> Inl e | Inr entry \<Rightarrow>
     (case get frontmatter ''path'' of Inl e \<Rightarrow> Inl e | Inr p \<Rightarrow>
        Inr (Obj (assign entry ''url'' (Str (static_url L cfg p))))))"

fun static_entries :: "libs \<Rightarrow> config \<Rightarrow> jsval list \<Rightarrow> error + jsval list" where
  "static_entries L cfg [] = Inr []"
| "static_entries L cfg (frontmatter # rest) =
     (case static_entry L cfg frontmatter of Inl e \<Rightarrow> Inl e | Inr entry \<Rightarrow>
     (case static_entries L cfg rest of Inl e \<Rightarrow> Inl e | Inr es \<Rightarrow> Inr (entry # es)))"

definition json_entries :: "libs \<Rightarrow> config \<Rightarrow> error + jsval list" where
  "json_entries L cfg =
     (if js_truthy (staticURLs cfg)
      then (case staticURLs cfg of
              Str p \<Rightarrow> (case read_json L p of
                          Inl e \<Rightarrow> Inl e
                        | Inr staticObjects \<Rightarrow> static_entries L cfg (for_in staticObjects))
            | _ \<Rightarrow> Inl TypeError)
      else Inr [])"

text \<open>
  Lines 75-185: the function the plugin returns, on the files of the build. All the
  entries are added to the sitemap, then \<^verbatim>\<open>files[output]\<close> is assigned the buffer of
  its text. The result is the error thrown (the files are then as they were), or the
  files when \<^verbatim>\<open>done()\<close> is called.
\<close>

definition sitemap_entries :: "libs \<Rightarrow> config \<Rightarrow> (string \<times> jsval) list \<Rightarrow> error + jsval list" where
  "sitemap_entries L cfg files =
     (case file_entries L cfg files of Inl e \<Rightarrow> Inl e | Inr es \<Rightarrow>
     (case json_entries L cfg of Inl e \<Rightarrow> Inl e | Inr ss \<Rightarrow> Inr (es @ ss)))"

definition run :: "libs \<Rightarrow> config \<Rightarrow> (string \<times> jsval) list \<Rightarrow> error + (string \<times> jsval) list" where
  "run L cfg files =
     (case sitemap_entries L cfg files of Inl e \<Rightarrow> Inl e | Inr es \<Rightarrow>
     (case sitemap_toString L (hostname cfg) es of Inl e \<Rightarrow> Inl e | Inr xml \<Rightarrow>
        Inr (assign files (js_string L (output_file cfg)) (Obj [(''contents'', Buffer xml)]))))"

section \<open>A reference instance of the libraries\<close>

text \<open>
  To run the model on concrete inputs the libraries need an instance. This one follows
  Node's \<^verbatim>\<open>path.posix\<close>, \<^verbatim>\<open>slash\<close>, \<^verbatim>\<open>multimatch\<close> over a fragment of
  \<^verbatim>\<open>minimatch\<close> (literal characters, \<^verbatim>\<open>?\<close>, \<^verbatim>\<open>*\<close> and \<^verbatim>\<open>**\<close>; no braces, classes
  or escapes), and the ECMAScript conversions on ASCII text. Of the date strings it
  reads the ISO form \<^verbatim>\<open>YYYY-MM-DD\<close> only, numbers print in plain decimal notation, and
  the sitemap is a plain rendering of the entries. The general theorems do not depend
  on it; the concrete runs below use inputs inside these fragments.
\<close>

definition ref_slash :: "string \<Rightarrow> string" where
  "ref_slash p =
     (if prefix [CHR 0x5C, CHR 0x5C, CHR ''?'', CHR 0x5C] p then p
      else map (\<lambda>c. if c = CHR 0x5C then CHR ''/'' else c) p)"

definition ref_basename :: "string \<Rightarrow> string" where
  "ref_basename p =
     rev (takeWhile (\<lambda>c. c \<noteq> CHR ''/'') (dropWhile (\<lambda>c. c = CHR ''/'') (rev p)))"

definition ref_extname :: "string \<Rightarrow> string" where
  "ref_extname p =
     (let b = ref_basename p;
          ext = rev (takeWhile (\<lambda>c. c \<noteq> CHR ''.'') (rev b))
      in if CHR ''.'' \<in> set b \<and> length ext + 1 \<noteq> length b \<and> b \<noteq> ''..''
         then CHR ''.'' # ext else [])"

primrec split_path :: "string \<Rightarrow> string list" where
  "split_path [] = [[]]"
| "split_path (c # cs) =
     (if c = CHR ''/'' then [] # split_path cs
      else (case split_path cs of [] \<Rightarrow> [[c]] | x # xs \<Rightarrow> (c # x) # xs))"

fun glob_part :: "string \<Rightarrow> string \<Rightarrow> bool" where
  "glob_part [] s = (s = [])"
| "glob_part (p # ps) [] = (p = CHR ''*'' \<and> glob_part ps [])"
| "glob_part (p # ps) (c # cs) =
     (if p = CHR ''*'' then glob_part ps (c # cs) \<or> glob_part (p # ps) cs
      else (p = CHR ''?'' \<or> p = c) \<and> glob_part ps cs)"

definition part_match :: "string \<Rightarrow> string \<Rightarrow> bool" where
  "part_match p f =
     (if CHR ''*'' \<in> set p \<or> CHR ''?'' \<in> set p
      then f \<noteq> [] \<and> (if take 1 f = ''.'' then take 1 p = ''.'' else True) \<and> glob_part p f
      else p = f)"

fun glob_path :: "string list \<Rightarrow> string list \<Rightarrow> bool" where
  "glob_path [] fs = (fs = [] \<or> fs = [[]])"
| "glob_path (p # ps) [] = False"
| "glob_path (p # ps) (f # fs) =
     (if p = ''**''
      then (if ps = [] then list_all (\<lambda>g. take 1 g \<noteq> ''.'') (f # fs)
            else glob_path ps (f # fs) \<or> (take 1 f \<noteq> ''.'' \<and> glob_path (p # ps) fs))
      else part_match p f \<and> glob_path ps fs)"

definition minimatch :: "string \<Rightarrow> string \<Rightarrow> bool" where
  "minimatch file pat = glob_path (split_path pat) (split_path file)"

text \<open>
  \<^verbatim>\<open>multimatch\<close> goes through the patterns in order: a pattern adds the paths it
  matches to the result, a pattern that starts with \<^verbatim>\<open>!\<close> removes them.
\<close>

definition multimatch :: "string \<Rightarrow> string list \<Rightarrow> string list" where
  "multimatch file pats =
     (if fold (\<lambda>p matched. if take 1 p = ''!'' then matched \<and> \<not> minimatch file (drop 1 p)
                             else matched \<or> minimatch file p) pats False
      then [file] else [])"

definition glob_patterns :: "jsval \<Rightarrow> string list option" where
  "glob_patterns v =
     (case v of
        Str p \<Rightarrow> Some [p]
      | Arr ps \<Rightarrow> (if list_all is_string ps
                    then Some (map (\<lambda>p. case p of Str q \<Rightarrow> q | _ \<Rightarrow> []) ps) else None)
      | _ \<Rightarrow> None)"

definition ref_match :: "string \<Rightarrow> jsval \<Rightarrow> error + string list" where
  "ref_match file v =
     (case glob_patterns v of
        None \<Rightarrow> Inl (LibError ''glob pattern string required'')
      | Some pats \<Rightarrow> Inr (multimatch file pats))"

text \<open>Numbers and other values as strings.\<close>

function digits :: "int \<Rightarrow> string" where
  "digits n =
     (if n < 10 then [''0123456789'' ! nat n]
      else digits (n div 10) @ [''0123456789'' ! nat (n mod 10)])"
  by pat_completeness auto
termination
  by (relation "measure nat") auto

fun frac_digits :: "nat \<Rightarrow> int \<Rightarrow> int \<Rightarrow> string" where
  "frac_digits 0 r d = []"
| "frac_digits (Suc k) r d =
     (if r = 0 then []
      else (''0123456789'' ! nat ((r * 10) div d)) # frac_digits k ((r * 10) mod d) d)"

definition ref_number :: "jsnum \<Rightarrow> string" where
  "ref_number n =
     (case n of
        NaN \<Rightarrow> ''NaN''
      | PosInf \<Rightarrow> ''Infinity''
      | NegInf \<Rightarrow> ''-Infinity''
      | Fin q \<Rightarrow>
          (let a = fst (quotient_of q); d = snd (quotient_of q); m = \<bar>a\<bar>
           in (if a < 0 then ''-'' else []) @ digits (m div d)
              @ (if m mod d = 0 then [] else ''.'' @ frac_digits 17 (m mod d) d)))"

definition pad :: "nat \<Rightarrow> int \<Rightarrow> string" where
  "pad w n = replicate (w - length (digits n)) CHR ''0'' @ digits n"

text \<open>
  The civil date of a day number (days since 1970-01-01) and back, and the parts of
  the HTTP-date \<^verbatim>\<open>Thu, 01 Jan 1970 00:00:00 GMT\<close>.
\<close>

definition civil :: "int \<Rightarrow> int \<times> int \<times> int" where
  "civil days =
     (let z = days + 719468;
          era = z div 146097;
          doe = z - era * 146097;
          yoe = (doe - doe div 1460 + doe div 36524 - doe div 146096) div 365;
          doy = doe - (365 * yoe + yoe div 4 - yoe div 100);
          mp = (5 * doy + 2) div 153;
          d = doy - (153 * mp + 2) div 5 + 1;
          m = (if mp < 10 then mp + 3 else mp - 9);
          y = yoe + era * 400 + (if m \<le> 2 then 1 else 0)
      in (y, m, d))"

definition day_number :: "int \<Rightarrow> int \<Rightarrow> int \<Rightarrow> int" where
  "day_number y m d =
     (let y' = (if m \<le> 2 then y - 1 else y);
          era = y' div 400;
          yoe = y' - era * 400;
          doy = (153 * (if m > 2 then m - 3 else m + 9) + 2) div 5 + d - 1;
          doe = yoe * 365 + yoe div 4 - yoe div 100 + doy
      in era * 146097 + doe - 719468)"

definition date_parts :: "int \<Rightarrow> string \<times> string \<times> string \<times> string \<times> string" where
  "date_parts t =
     (let days = t div 86400000;
          ms = t mod 86400000;
          ymd = civil days;
          y = fst ymd
      in ([''Sun'', ''Mon'', ''Tue'', ''Wed'', ''Thu'', ''Fri'', ''Sat''] ! nat ((days + 4) mod 7),
          pad 2 (snd (snd ymd)),
          [''Jan'', ''Feb'', ''Mar'', ''Apr'', ''May'', ''Jun'',
           ''Jul'', ''Aug'', ''Sep'', ''Oct'', ''Nov'', ''Dec''] ! nat (fst (snd ymd) - 1),
          (if y < 0 then ''-'' else []) @ pad 4 \<bar>y\<bar>,
          pad 2 (ms div 3600000) @ '':'' @ pad 2 (ms div 60000 mod 60) @ '':''
            @ pad 2 (ms div 1000 mod 60)))"

definition ref_utc_string :: "int \<Rightarrow> string" where
  "ref_utc_string t =
     (case date_parts t of (wd, d, m, y, hms) \<Rightarrow>
        wd @ '', '' @ d @ '' '' @ m @ '' '' @ y @ '' '' @ hms @ '' GMT'')"

text \<open>\<^verbatim>\<open>Date.prototype.toString\<close> on a host in the UTC time zone.\<close>

definition ref_date_string :: "int \<Rightarrow> string" where
  "ref_date_string t =
     (case date_parts t of (wd, d, m, y, hms) \<Rightarrow>
        wd @ '' '' @ m @ '' '' @ d @ '' '' @ y @ '' '' @ hms
          @ '' GMT+0000 (Coordinated Universal Time)'')"

definition is_digit :: "char \<Rightarrow> bool" where
  "is_digit c = (c \<in> set ''0123456789'')"

definition number_of :: "string \<Rightarrow> int" where
  "number_of s = foldl (\<lambda>n c. 10 * n + (of_char c - 48)) 0 s"

definition parse_date :: "string \<Rightarrow> int option" where
  "parse_date s =
     (let y = number_of (take 4 s);
          m = number_of (take 2 (drop 5 s));
          d = number_of (drop 8 s);
          days = day_number y m d
      in if length s = 10 \<and> take 1 (drop 4 s) = ''-'' \<and> take 1 (drop 7 s) = ''-''
            \<and> list_all is_digit (take 4 s @ take 2 (drop 5 s) @ drop 8 s)
            \<and> civil days = (y, m, d)
         then Some (days * 86400000) else None)"

definition join :: "string list \<Rightarrow> string" where
  "join xs = (case xs of [] \<Rightarrow> [] | x # rest \<Rightarrow> x @ concat (map (\<lambda>y. CHR '','' # y) rest))"

fun ref_string :: "jsval \<Rightarrow> string" where
  "ref_string Undefined = ''undefined''"
| "ref_string Null = ''null''"
| "ref_string (Bool b) = (if b then ''true'' else ''false'')"
| "ref_string (Num n) = ref_number n"
| "ref_string (Str s) = s"
| "ref_string (Arr xs) =
     join (map (\<lambda>x. if x = Undefined \<or> x = Null then [] else ref_string x) xs)"
| "ref_string (Obj kvs) = ''[object Object]''"
| "ref_string (Date t) = (case t of None \<Rightarrow> ''Invalid Date'' | Some ms \<Rightarrow> ref_date_string ms)"
| "ref_string (Buffer s) = s"

text \<open>
  Whether ToNumber of a string is a number: white space around nothing, around a
  decimal literal with an optional sign, fraction and exponent, around a signed
  \<^verbatim>\<open>Infinity\<close>, or around a binary, octal or hexadecimal literal.
\<close>

definition is_space :: "char \<Rightarrow> bool" where
  "is_space c = (c \<in> set [CHR '' '', CHR 0x09, CHR 0x0A, CHR 0x0B, CHR 0x0C, CHR 0x0D])"

definition trim :: "string \<Rightarrow> string" where
  "trim s = rev (dropWhile is_space (rev (dropWhile is_space s)))"

definition unsigned :: "string \<Rightarrow> string" where
  "unsigned s = (if take 1 s = ''+'' \<or> take 1 s = ''-'' then drop 1 s else s)"

definition all_in :: "string \<Rightarrow> string \<Rightarrow> bool" where
  "all_in alphabet s = (s \<noteq> [] \<and> list_all (\<lambda>c. c \<in> set alphabet) s)"

definition exponent_ok :: "string \<Rightarrow> bool" where
  "exponent_ok r =
     (r = [] \<or> ((take 1 r = ''e'' \<or> take 1 r = ''E'') \<and> all_in ''0123456789'' (unsigned (drop 1 r))))"

definition decimal_ok :: "string \<Rightarrow> bool" where
  "decimal_ok s =
     (let ip = takeWhile is_digit s;
          r1 = dropWhile is_digit s;
          dot = (take 1 r1 = ''.'');
          fp = (if dot then takeWhile is_digit (drop 1 r1) else []);
          r2 = (if dot then dropWhile is_digit (drop 1 r1) else r1)
      in (ip \<noteq> [] \<or> fp \<noteq> []) \<and> exponent_ok r2)"

definition radix_ok :: "string \<Rightarrow> bool" where
  "radix_ok s =
     (let pre = take 2 s; ds = drop 2 s
      in ((pre = ''0x'' \<or> pre = ''0X'') \<and> all_in ''0123456789abcdefABCDEF'' ds)
         \<or> ((pre = ''0o'' \<or> pre = ''0O'') \<and> all_in ''01234567'' ds)
         \<or> ((pre = ''0b'' \<or> pre = ''0B'') \<and> all_in ''01'' ds))"

definition numeric_string :: "string \<Rightarrow> bool" where
  "numeric_string s =
     (let t = trim s
      in t = [] \<or> unsigned t = ''Infinity'' \<or> decimal_ok (unsigned t) \<or> radix_ok t)"

definition ref_isNaN :: "jsval \<Rightarrow> bool" where
  "ref_isNaN v = (case v of Obj kvs \<Rightarrow> True | _ \<Rightarrow> \<not> numeric_string (ref_string v))"

text \<open>
  The time value of \<^verbatim>\<open>new Date(v)\<close>: a number is truncated to whole milliseconds
  and must lie within 8.64e15 of the epoch; a string is parsed.
\<close>

definition ref_date_value :: "jsval \<Rightarrow> int option" where
  "ref_date_value v =
     (case v of
        Undefined \<Rightarrow> None
      | Null \<Rightarrow> Some 0
      | Bool b \<Rightarrow> Some (if b then 1 else 0)
      | Num n \<Rightarrow>
          (case n of
             Fin q \<Rightarrow> (if \<bar>q\<bar> \<le> 8640000000000000
                        then Some (if 0 \<le> q then \<lfloor>q\<rfloor> else \<lceil>q\<rceil>) else None)
           | _ \<Rightarrow> None)
      | Date t \<Rightarrow> t
      | _ \<Rightarrow> parse_date (ref_string v))"

text \<open>
  The sitemap: one \<^verbatim>\<open>url\<close> element per entry, its \<^verbatim>\<open>loc\<close> the entry's url joined to
  the hostname unless it names a protocol itself, then the fields the entry has.
\<close>

definition xml_element :: "string \<Rightarrow> string \<Rightarrow> string" where
  "xml_element tag body = ''<'' @ tag @ ''>'' @ body @ ''</'' @ tag @ ''>''"

definition url_join :: "string \<Rightarrow> string \<Rightarrow> string" where
  "url_join host u =
     (if prefix ''http://'' u \<or> prefix ''https://'' u then u
      else rev (dropWhile (\<lambda>c. c = CHR ''/'') (rev host)) @ ''/''
           @ dropWhile (\<lambda>c. c = CHR ''/'') u)"

definition xml_field :: "jsval \<Rightarrow> string \<Rightarrow> string" where
  "xml_field entry k =
     (if member entry k = Undefined then [] else xml_element k (ref_string (member entry k)))"

definition xml_url :: "string \<Rightarrow> jsval \<Rightarrow> string" where
  "xml_url host entry =
     xml_element ''url''
       (xml_element ''loc'' (url_join host (ref_string (member entry ''url'')))
        @ xml_field entry ''changefreq'' @ xml_field entry ''priority''
        @ xml_field entry ''lastmod'')"

definition ref_sitemap :: "jsval \<Rightarrow> jsval list \<Rightarrow> error + string" where
  \<open>ref_sitemap host es =
     Inr (''<?xml version="1.0" encoding="UTF-8"?>''
          @ ''<urlset xmlns="http://www.sitemaps.org/schemas/sitemap/0.9">''
          @ concat (map (xml_url (ref_string host)) es) @ ''</urlset>'')\<close>

text \<open>The instance, over the JSON files that can be read from the disk.\<close>

definition ref_libs :: "(string \<Rightarrow> error + jsval) \<Rightarrow> libs" where
  "ref_libs disk =
     \<lparr> slash = ref_slash, basename = ref_basename, extname = ref_extname,
       match = ref_match, coerced_isNaN = ref_isNaN, coerced_string = ref_string,
       date_value = ref_date_value, utc_string = ref_utc_string,
       read_json = disk, sitemap_toString = ref_sitemap \<rparr>"

definition no_disk :: "string \<Rightarrow> error + jsval" where
  "no_disk p = Inl (LibError ''ENOENT: no such file or directory'')"


section \<open>Basic facts\<close>

lemma map_of_assign: "map_of (assign kvs k v) = (map_of kvs)(k \<mapsto> v)"
  by (induction kvs) auto

lemma assign_absent: "k \<notin> fst ` set kvs \<Longrightarrow> assign kvs k v = kvs @ [(k, v)]"
  by (induction kvs) auto

lemma keys_assign_present: "k \<in> fst ` set kvs \<Longrightarrow> map fst (assign kvs k v) = map fst kvs"
  by (induction kvs) force+

lemma member_assign:
  "member (Obj (assign kvs k v)) k' = (if k' = k then v else member (Obj kvs) k')"
  by (simp add: member_def map_of_assign)

text \<open>
  The entry of a record whose properties can be read: \<^verbatim>\<open>pickby\<close> drops the fields that
  resolve to \<^verbatim>\<open>undefined\<close>. On \<^verbatim>\<open>null\<close> and \<^verbatim>\<open>undefined\<close> the first read throws.
\<close>

lemma make_entry_Inr:
  assumes "fm \<noteq> Undefined" "fm \<noteq> Null"
  shows "make_entry L cfg fm =
     Inr ((if js_or (member fm ''changefreq'') (changefreq cfg) = Undefined then []
           else [(''changefreq'', js_or (member fm ''changefreq'') (changefreq cfg))])
        @ (if js_or (member fm ''priority'') (priority cfg) = Undefined then []
           else [(''priority'', js_or (member fm ''priority'') (priority cfg))])
        @ (if js_or (member fm ''lastmod'') (lastmod cfg) = Undefined then []
           else [(''lastmod'',
                  Str (toUTCString L (new_Date L (js_or (member fm ''lastmod'') (lastmod cfg)))))]))"
  using assms
  by (simp add: make_entry_def get_def pickby_def isundefined_def has_key_def member_def)

lemma make_entry_Inl:
  assumes "fm = Undefined \<or> fm = Null"
  shows "make_entry L cfg fm = Inl TypeError"
  using assms by (auto simp add: make_entry_def get_def)

lemma buildUrl_Inr:
  "fm \<noteq> Undefined \<Longrightarrow> fm \<noteq> Null \<Longrightarrow>
   buildUrl L cfg file fm =
     Inr (if suffix ''/'' (url_base L cfg file (member fm ''canonical''))
          then url_base L cfg file (member fm ''canonical'')
          else url_base L cfg file (member fm ''canonical'') @ ''/'')"
  by (simp add: buildUrl_def get_def Let_def)

lemma check_Inr_True:
  "check L cfg file fm = Inr True \<Longrightarrow> fm \<noteq> Undefined \<and> fm \<noteq> Null"
  by (auto simp: check_def get_def split: sum.splits if_splits)

lemma file_entry_Some:
  assumes "file_entry L cfg file fm = Inr (Some e)"
  shows "check L cfg file fm = Inr True \<and> fm \<noteq> Undefined \<and> fm \<noteq> Null
         \<and> (\<exists>entry u. make_entry L cfg fm = Inr entry \<and> buildUrl L cfg file fm = Inr u
               \<and> e = Obj (assign entry ''url'' (Str u)))"
proof -
  from assms have c: "check L cfg file fm = Inr True"
    by (auto simp: file_entry_def split: sum.splits if_splits)
  with assms check_Inr_True [OF c] show ?thesis
    by (auto simp: file_entry_def split: sum.splits)
qed


lemma file_entries_member:
  "file_entries L cfg files = Inr es \<Longrightarrow> e \<in> set es \<Longrightarrow>
   \<exists>file fm. (file, fm) \<in> set files \<and> file_entry L cfg file fm = Inr (Some e)"
proof (induction files arbitrary: es)
  case Nil
  then show ?case by simp
next
  case (Cons a files)
  obtain f fm where a: "a = (f, fm)" by (cases a)
  from Cons.prems(1) a obtain added rest where
    added: "file_entry L cfg f fm = Inr added" and
    rest: "file_entries L cfg files = Inr rest" and
    es: "es = (case added of None \<Rightarrow> rest | Some x \<Rightarrow> x # rest)"
    by (auto split: sum.splits)
  show ?case
  proof (cases "e \<in> set rest")
    case True
    from Cons.IH [OF rest True] show ?thesis by auto
  next
    case False
    with Cons.prems(2) es have "added = Some e"
      by (cases added) auto
    with added a show ?thesis by auto
  qed
qed

lemma static_entry_Inr:
  assumes "static_entry L cfg r = Inr e"
  shows "r \<noteq> Undefined \<and> r \<noteq> Null
         \<and> (\<exists>entry. make_entry L cfg r = Inr entry
              \<and> e = Obj (assign entry ''url'' (Str (static_url L cfg (member r ''path'')))))"
  using assms by (auto simp: static_entry_def get_def split: sum.splits if_splits)

text \<open>What construction guarantees of the configuration, and its result for a bare hostname.\<close>

lemma plugin_config:
  assumes "plugin L opts = Inr cfg"
  shows "js_truthy (changefreq cfg) \<and> priority cfg \<noteq> Undefined \<and> js_truthy (hostname cfg)
         \<and> js_truthy (output_file cfg) \<and> js_truthy (pattern cfg)"
proof -
  have "js_isNaN L v \<or> v \<noteq> Undefined" for v
    by (cases v) auto
  with assms show ?thesis
    by (auto simp: plugin_def Let_def js_or_def split: if_splits sum.splits bool.splits)
qed

lemma plugin_defaults: "h \<noteq> [] \<Longrightarrow> plugin L (Str h) = Inr (default_config h)"
  by (simp add: plugin_def init_opts_def js_or_def member_def jsonFile_rejected_def
      default_config_def)

section \<open>Construction errors\<close>

text \<open>
  Claim C8. Construction throws the error \<^verbatim>\<open>"hostname" option required\<close> when, after
  \<^verbatim>\<open>opts = opts || {}\<close> and the conversion of a bare string, the \<^verbatim>\<open>hostname\<close> of the
  options is falsy: missing (\<^verbatim>\<open>undefined\<close>) or the empty string, and also \<^verbatim>\<open>null\<close>,
  \<^verbatim>\<open>false\<close>, 0 or NaN. A bare string \<open>h\<close> is handled as the options \<^verbatim>\<open>{ hostname: h }\<close>
  are. The error is the result of \<open>plugin\<close>, which takes the options only: no function
  that takes the files has been returned when it is thrown.
\<close>

theorem plugin_hostname_required:
  assumes "\<not> js_truthy (member (init_opts opts) ''hostname'')"
  shows \<open>plugin L opts = Inl (Error ''"hostname" option required'')
         \<and> plugin L (Str h) = plugin L (Obj [(''hostname'', Str h)])\<close>
proof -
  from assms have \<open>plugin L opts = Inl (Error ''"hostname" option required'')\<close>
    by (simp add: plugin_def Let_def)
  moreover have "plugin L (Str h) = plugin L (Obj [(''hostname'', Str h)])"
    by (cases "h = []") (simp_all add: plugin_def init_opts_def js_or_def member_def)
  ultimately show ?thesis by simp
qed

text \<open>Options without a hostname, the empty string, and no options at all.\<close>

theorem plugin_hostname_required_witness:
  \<open>plugin (ref_libs no_disk) (Obj [(''changefreq'', Str ''daily'')])
     = Inl (Error ''"hostname" option required'')
   \<and> plugin (ref_libs no_disk) (Obj [(''hostname'', Str [])])
     = Inl (Error ''"hostname" option required'')
   \<and> plugin (ref_libs no_disk) (Str []) = Inl (Error ''"hostname" option required'')
   \<and> plugin (ref_libs no_disk) Undefined = Inl (Error ''"hostname" option required'')
   \<and> plugin (ref_libs no_disk) (Str ''http://example.com'')
     = plugin (ref_libs no_disk) (Obj [(''hostname'', Str ''http://example.com'')])\<close>
proof -
  have a: "\<not> js_truthy (member (init_opts (Obj [(''changefreq'', Str ''daily'')])) ''hostname'')"
    and b: "\<not> js_truthy (member (init_opts (Obj [(''hostname'', Str [])])) ''hostname'')"
    and c: "\<not> js_truthy (member (init_opts (Str [])) ''hostname'')"
    and d: "\<not> js_truthy (member (init_opts Undefined) ''hostname'')"
    by (simp_all add: init_opts_def js_or_def member_def)
  show ?thesis
    using plugin_hostname_required [OF a, of "ref_libs no_disk" "''http://example.com''"]
      plugin_hostname_required [OF b, of "ref_libs no_disk" "''http://example.com''"]
      plugin_hostname_required [OF c, of "ref_libs no_disk" "''http://example.com''"]
      plugin_hostname_required [OF d, of "ref_libs no_disk" "''http://example.com''"]
    by simp
qed



section \<open>Priority\<close>

text \<open>
  The configured priority is the default 0.5 exactly when \<^verbatim>\<open>isNaN\<close> holds of the option,
  so an option of 0 is kept. An entry takes the priority of the record only when that is
  truthy: \<^verbatim>\<open>frontmatter.priority || priority\<close>.
\<close>

lemma plugin_priority:
  assumes "plugin L opts = Inr cfg"
  shows "priority cfg
         = (if js_isNaN L (member (init_opts opts) ''priority'') then Num (Fin (1 / 2))
            else member (init_opts opts) ''priority'')"
  using assms
  by (auto simp: plugin_def Let_def split: if_splits sum.splits bool.splits)

lemma plugin_priority_zero:
  assumes "plugin L opts = Inr cfg" and "member (init_opts opts) ''priority'' = Num (Fin 0)"
  shows "priority cfg = Num (Fin 0)"
  using plugin_priority [OF assms(1)] assms(2) by simp

lemma entry_priority_falsy:
  assumes "make_entry L cfg fm = Inr entry" and "\<not> js_truthy (member fm ''priority'')"
  shows "member (Obj entry) ''priority'' = priority cfg"
proof -
  from assms(1) have fm: "fm \<noteq> Undefined" "fm \<noteq> Null"
    by (auto simp: make_entry_def get_def split: if_splits)
  from assms make_entry_Inr [OF fm, of L cfg] show ?thesis
    by (auto simp: member_def js_or_def)
qed

text \<open>
  Claim C1. The second half of the claim fails on the code. For the hostname
  \<^verbatim>\<open>http://example.com\<close> and nothing else configured, the file \<^verbatim>\<open>page.html\<close> whose front
  matter is \<^verbatim>\<open>{ priority: 0 }\<close> gets an entry with priority 0.5, the configured default:
  0 is falsy in \<^verbatim>\<open>frontmatter.priority || priority\<close>. The first half holds
  (\<open>plugin_priority\<close>): the option \<^verbatim>\<open>priority: 0\<close> is kept, and a file without a priority
  of its own then gets priority 0.
\<close>

theorem front_matter_priority_zero_replaced:
  "plugin (ref_libs no_disk) (Str ''http://example.com'')
     = Inr (default_config ''http://example.com'')
   \<and> file_entries (ref_libs no_disk) (default_config ''http://example.com'')
        [(''page.html'', Obj [(''priority'', Num (Fin 0))])]
     = Inr [Obj [(''changefreq'', Str ''weekly''), (''priority'', Num (Fin (1 / 2))),
                 (''url'', Str ''page.html/'')]]
   \<and> plugin (ref_libs no_disk)
        (Obj [(''hostname'', Str ''http://example.com''), (''priority'', Num (Fin 0))])
     = Inr ((default_config ''http://example.com'')\<lparr>priority := Num (Fin 0)\<rparr>)
   \<and> file_entries (ref_libs no_disk)
        ((default_config ''http://example.com'')\<lparr>priority := Num (Fin 0)\<rparr>)
        [(''page.html'', Obj [])]
     = Inr [Obj [(''changefreq'', Str ''weekly''), (''priority'', Num (Fin 0)),
                 (''url'', Str ''page.html/'')]]"
  by code_simp

section \<open>The URL of a file\<close>

text \<open>
  What \<^verbatim>\<open>buildUrl\<close> computes before it appends the slash: the first of the canonical
  string, the path without \<^verbatim>\<open>index.html\<close> and the path without its extension that
  applies and is not the empty string, else the normalized path. A rule whose result is
  empty leaves \<^verbatim>\<open>r\<close> falsy, so the rules after it are tried.
\<close>

lemma url_base_rules:
  "url_base L cfg file canonical =
     (let n = slash L file in
      if is_string canonical \<and> js_string L canonical \<noteq> [] then js_string L canonical
      else if js_truthy (omitIndex cfg) \<and> basename L n = ''index.html''
              \<and> chompRight n ''index.html'' \<noteq> []
           then chompRight n ''index.html''
      else if js_truthy (omitExtension cfg) \<and> chompRight n (extname L n) \<noteq> []
           then chompRight n (extname L n)
      else n)"
  by (simp add: url_base_def Let_def)

text \<open>
  Claim C2. The claim fails on the code where a rule applies with an empty result. With
  \<^verbatim>\<open>omitIndex\<close> set, the file \<^verbatim>\<open>index.html\<close> at the root has the final segment
  \<^verbatim>\<open>index.html\<close>, and stripping it leaves the empty string; the code then falls through
  to the later rules and the url is \<^verbatim>\<open>index.html/\<close> (\<^verbatim>\<open>index/\<close> when \<^verbatim>\<open>omitExtension\<close>
  is set too), not \<^verbatim>\<open>/\<close>. Below the root the rule works: \<^verbatim>\<open>blog/index.html\<close> gives
  \<^verbatim>\<open>blog/\<close>.
\<close>

theorem root_index_not_stripped:
  "plugin (ref_libs no_disk)
       (Obj [(''hostname'', Str ''http://example.com''), (''omitIndex'', Bool True)])
     = Inr ((default_config ''http://example.com'')\<lparr>omitIndex := Bool True\<rparr>)
   \<and> buildUrl (ref_libs no_disk)
        ((default_config ''http://example.com'')\<lparr>omitIndex := Bool True\<rparr>)
        ''index.html'' (Obj [])
     = Inr ''index.html/''
   \<and> buildUrl (ref_libs no_disk)
        ((default_config ''http://example.com'')\<lparr>omitIndex := Bool True\<rparr>)
        ''blog/index.html'' (Obj [])
     = Inr ''blog/''
   \<and> buildUrl (ref_libs no_disk)
        ((default_config ''http://example.com'')
           \<lparr>omitExtension := Bool True, omitIndex := Bool True\<rparr>)
        ''index.html'' (Obj [])
     = Inr ''index/''"
  by code_simp

text \<open>
  Claim C3. Every entry that the loop over the files adds comes from a file of the build,
  and its \<^verbatim>\<open>url\<close> is what \<^verbatim>\<open>buildUrl\<close> returns for that file: the base \<open>b\<close> of the
  four rules (the canonical string included) when \<open>b\<close> ends with a slash, else \<open>b\<close> with
  a slash appended. Either way the url ends with a slash, so it is never empty.
\<close>

theorem file_urls_end_with_slash:
  assumes "file_entries L cfg files = Inr es"
  shows "\<forall>e \<in> set es. \<exists>file fm b.
           (file, fm) \<in> set files
           \<and> b = url_base L cfg file (member fm ''canonical'')
           \<and> buildUrl L cfg file fm = Inr (if suffix ''/'' b then b else b @ ''/'')
           \<and> member e ''url'' = Str (if suffix ''/'' b then b else b @ ''/'')
           \<and> suffix ''/'' (if suffix ''/'' b then b else b @ ''/'')"
proof
  fix e
  assume "e \<in> set es"
  from file_entries_member [OF assms this] obtain f fm where
    f: "(f, fm) \<in> set files" and e: "file_entry L cfg f fm = Inr (Some e)"
    by blast
  from file_entry_Some [OF e] obtain entry u where
    fm: "fm \<noteq> Undefined" "fm \<noteq> Null" and u: "buildUrl L cfg f fm = Inr u"
    and eq: "e = Obj (assign entry ''url'' (Str u))"
    by blast
  let ?b = "url_base L cfg f (member fm ''canonical'')"
  from u buildUrl_Inr [OF fm, of L cfg f]
  have "u = (if suffix ''/'' ?b then ?b else ?b @ ''/'')" by simp
  then have "buildUrl L cfg f fm = Inr (if suffix ''/'' ?b then ?b else ?b @ ''/'')"
    and "member e ''url'' = Str (if suffix ''/'' ?b then ?b else ?b @ ''/'')"
    and "suffix ''/'' (if suffix ''/'' ?b then ?b else ?b @ ''/'')"
    using u eq by (simp_all add: member_assign suffix_def)
  with f show "\<exists>file fm b.
           (file, fm) \<in> set files
           \<and> b = url_base L cfg file (member fm ''canonical'')
           \<and> buildUrl L cfg file fm = Inr (if suffix ''/'' b then b else b @ ''/'')
           \<and> member e ''url'' = Str (if suffix ''/'' b then b else b @ ''/'')
           \<and> suffix ''/'' (if suffix ''/'' b then b else b @ ''/'')"
    by blast
qed

text \<open>
  With \<^verbatim>\<open>omitIndex\<close>: a path that loses \<^verbatim>\<open>index.html\<close>, a canonical url that gets its
  slash, and a file that the pattern skips.
\<close>

theorem file_urls_end_with_slash_witness:
  "file_entries (ref_libs no_disk)
       ((default_config ''http://example.com'')\<lparr>omitIndex := Bool True\<rparr>)
       [(''blog/index.html'', Obj []),
        (''about.html'', Obj [(''canonical'', Str ''http://example.com/about'')]),
        (''notes.txt'', Obj [])]
     = Inr [Obj [(''changefreq'', Str ''weekly''), (''priority'', Num (Fin (1 / 2))),
                 (''url'', Str ''blog/'')],
            Obj [(''changefreq'', Str ''weekly''), (''priority'', Num (Fin (1 / 2))),
                 (''url'', Str ''http://example.com/about/'')]]
   \<and> list_all (\<lambda>e. \<exists>u. member e ''url'' = Str u \<and> suffix ''/'' u)
        [Obj [(''changefreq'', Str ''weekly''), (''priority'', Num (Fin (1 / 2))),
              (''url'', Str ''blog/'')],
         Obj [(''changefreq'', Str ''weekly''), (''priority'', Num (Fin (1 / 2))),
              (''url'', Str ''http://example.com/about/'')]]"
proof -
  let ?R = "ref_libs no_disk"
  let ?cfg = "(default_config ''http://example.com'')\<lparr>omitIndex := Bool True\<rparr>"
  let ?files = "[(''blog/index.html'', Obj []),
                 (''about.html'', Obj [(''canonical'', Str ''http://example.com/about'')]),
                 (''notes.txt'', Obj [])]"
  let ?es = "[Obj [(''changefreq'', Str ''weekly''), (''priority'', Num (Fin (1 / 2))),
                   (''url'', Str ''blog/'')],
              Obj [(''changefreq'', Str ''weekly''), (''priority'', Num (Fin (1 / 2))),
                   (''url'', Str ''http://example.com/about/'')]]"
  have r: "file_entries ?R ?cfg ?files = Inr ?es"
    by code_simp
  from file_urls_end_with_slash [OF r]
  have "\<forall>e \<in> set ?es. \<exists>u. member e ''url'' = Str u \<and> suffix ''/'' u"
    by blast
  then have "list_all (\<lambda>e. \<exists>u. member e ''url'' = Str u \<and> suffix ''/'' u) ?es"
    by (simp only: list_all_iff)
  with r show ?thesis by blast
qed

section \<open>Which files are in the sitemap\<close>



section \<open>The fields of an entry\<close>



text \<open>
  Claim C10, as stated, fails for a record whose \<^verbatim>\<open>lastmod\<close> is defined but falsy: with
  no configured default, the entry of the file whose front matter is \<^verbatim>\<open>{ lastmod: 0 }\<close>
  has no \<^verbatim>\<open>lastmod\<close>, although 0 is a defined value and a valid date (the epoch).
  Reading "defined" as truthy does not save the claim: a configured \<^verbatim>\<open>lastmod\<close> that is
  the empty string is falsy, yet it is kept and rendered for a file that has none.
\<close>

theorem falsy_lastmod_omitted:
  "plugin (ref_libs no_disk) (Str ''http://example.com'')
     = Inr (default_config ''http://example.com'')
   \<and> lastmod (default_config ''http://example.com'') = Undefined
   \<and> file_entries (ref_libs no_disk) (default_config ''http://example.com'')
        [(''page.html'', Obj [(''lastmod'', Num (Fin 0))])]
     = Inr [Obj [(''changefreq'', Str ''weekly''), (''priority'', Num (Fin (1 / 2))),
                 (''url'', Str ''page.html/'')]]
   \<and> new_Date (ref_libs no_disk) (Num (Fin 0)) = Some 0
   \<and> plugin (ref_libs no_disk)
        (Obj [(''hostname'', Str ''http://example.com''), (''lastmod'', Str [])])
     = Inr ((default_config ''http://example.com'')\<lparr>lastmod := Str []\<rparr>)
   \<and> file_entries (ref_libs no_disk)
        ((default_config ''http://example.com'')\<lparr>lastmod := Str []\<rparr>)
        [(''page.html'', Obj [])]
     = Inr [Obj [(''changefreq'', Str ''weekly''), (''priority'', Num (Fin (1 / 2))),
                 (''lastmod'', Str ''Invalid Date''), (''url'', Str ''page.html/'')]]"
  by code_simp

text \<open>
  Claim C10, amended: with a configuration that \<^verbatim>\<open>plugin\<close> returned, every entry of a
  file or of a JSON record has exactly the fields \<^verbatim>\<open>changefreq\<close>, \<^verbatim>\<open>priority\<close>, then
  \<^verbatim>\<open>lastmod\<close> unless it is omitted, then \<^verbatim>\<open>url\<close>; \<^verbatim>\<open>changefreq\<close> and \<^verbatim>\<open>priority\<close> are
  never \<^verbatim>\<open>undefined\<close>; and \<^verbatim>\<open>lastmod\<close> is omitted exactly when the record's \<^verbatim>\<open>lastmod\<close>
  is falsy (undefined, null, false, 0, NaN or the empty string) and the configuration
  has none (\<^verbatim>\<open>undefined\<close>).
\<close>

theorem entry_fields:
  assumes "plugin L opts = Inr cfg"
    and "file_entry L cfg file fm = Inr (Some e) \<or> static_entry L cfg fm = Inr e"
  shows "\<exists>kvs. e = Obj kvs
           \<and> map fst kvs
               = ''changefreq'' # ''priority''
                 # (if \<not> js_truthy (member fm ''lastmod'') \<and> lastmod cfg = Undefined
                    then [] else [''lastmod'']) @ [''url'']
           \<and> member e ''changefreq'' = js_or (member fm ''changefreq'') (changefreq cfg)
           \<and> member e ''priority'' = js_or (member fm ''priority'') (priority cfg)
           \<and> member e ''changefreq'' \<noteq> Undefined \<and> member e ''priority'' \<noteq> Undefined"
proof -
  from plugin_config [OF assms(1)]
  have cf: "js_or (member fm ''changefreq'') (changefreq cfg) \<noteq> Undefined"
    and pr: "js_or (member fm ''priority'') (priority cfg) \<noteq> Undefined"
    by (auto simp: js_or_def)
  have lm: "(js_or (member fm ''lastmod'') (lastmod cfg) = Undefined)
            = (\<not> js_truthy (member fm ''lastmod'') \<and> lastmod cfg = Undefined)"
    by (auto simp: js_or_def)
  from assms(2) obtain entry u where
    fm: "fm \<noteq> Undefined" "fm \<noteq> Null" and
    e: "make_entry L cfg fm = Inr entry" "e = Obj (assign entry ''url'' (Str u))"
    using file_entry_Some [of L cfg "file" fm e] static_entry_Inr [of L cfg fm e]
    by blast
  from e make_entry_Inr [OF fm, of L cfg] cf pr lm show ?thesis
    by (auto simp: member_def)
qed

text \<open>
  A file with a \<^verbatim>\<open>lastmod\<close> has the four fields; a JSON record without one, and with
  no configured default, has three.
\<close>

theorem entry_fields_witness:
  "(\<exists>kvs. Obj [(''changefreq'', Str ''weekly''), (''priority'', Num (Fin (1 / 2))),
               (''lastmod'', Str ''Sun, 15 Jan 2017 00:00:00 GMT''), (''url'', Str ''page.html/'')]
            = Obj kvs
          \<and> map fst kvs = [''changefreq'', ''priority'', ''lastmod'', ''url''])
   \<and> file_entry (ref_libs no_disk) (default_config ''http://example.com'')
        ''page.html'' (Obj [(''lastmod'', Str ''2017-01-15'')])
     = Inr (Some (Obj [(''changefreq'', Str ''weekly''), (''priority'', Num (Fin (1 / 2))),
                       (''lastmod'', Str ''Sun, 15 Jan 2017 00:00:00 GMT''),
                       (''url'', Str ''page.html/'')]))
   \<and> (\<exists>kvs. Obj [(''changefreq'', Str ''weekly''), (''priority'', Num (Fin (1 / 2))),
                 (''url'', Str ''http://example.com/external/page'')] = Obj kvs
          \<and> map fst kvs = [''changefreq'', ''priority'', ''url''])
   \<and> static_entry (ref_libs no_disk) (default_config ''http://example.com'')
        (Obj [(''path'', Str ''external/page'')])
     = Inr (Obj [(''changefreq'', Str ''weekly''), (''priority'', Num (Fin (1 / 2))),
                 (''url'', Str ''http://example.com/external/page'')])"
proof -
  let ?R = "ref_libs no_disk"
  let ?cfg = "default_config ''http://example.com''"
  let ?e1 = "Obj [(''changefreq'', Str ''weekly''), (''priority'', Num (Fin (1 / 2))),
                  (''lastmod'', Str ''Sun, 15 Jan 2017 00:00:00 GMT''), (''url'', Str ''page.html/'')]"
  let ?e2 = "Obj [(''changefreq'', Str ''weekly''), (''priority'', Num (Fin (1 / 2))),
                  (''url'', Str ''http://example.com/external/page'')]"
  have p: "plugin ?R (Str ''http://example.com'') = Inr ?cfg"
    by (simp add: plugin_defaults)
  have l: "lastmod ?cfg = Undefined"
    by (simp add: default_config_def)
  have f: "file_entry ?R ?cfg ''page.html'' (Obj [(''lastmod'', Str ''2017-01-15'')]) = Inr (Some ?e1)"
    by code_simp
  have s: "static_entry ?R ?cfg (Obj [(''path'', Str ''external/page'')]) = Inr ?e2"
    by code_simp
  from entry_fields [OF p disjI1, OF f] l
  have k1: "\<exists>kvs. ?e1 = Obj kvs \<and> map fst kvs = [''changefreq'', ''priority'', ''lastmod'', ''url'']"
    by (simp add: member_def)
  from entry_fields [OF p disjI2, OF s] l
  have k2: "\<exists>kvs. ?e2 = Obj kvs \<and> map fst kvs = [''changefreq'', ''priority'', ''url'']"
    by (simp add: member_def)
  from k1 f k2 s show ?thesis by simp
qed

section \<open>The records of the JSON file\<close>




section \<open>The output file\<close>

text \<open>
  Claim C6, as stated, fails when the files already hold the output path: the run then
  adds no key, and the value of that key is replaced by the new sitemap.
\<close>

theorem output_path_overwritten:
  \<open>plugin (ref_libs no_disk) (Str ''http://example.com'')
     = Inr (default_config ''http://example.com'')
   \<and> run (ref_libs no_disk) (default_config ''http://example.com'')
        [(''sitemap.xml'', Obj [(''contents'', Buffer ''<urlset/>'')])]
     = Inr [(''sitemap.xml'',
             Obj [(''contents'',
                   Buffer (''<?xml version="1.0" encoding="UTF-8"?>''
                           @ ''<urlset xmlns="http://www.sitemaps.org/schemas/sitemap/0.9">''
                           @ ''</urlset>''))])]\<close>
  by code_simp

text \<open>
  Claim C6, amended: when the run completes, the files are the files it was given with
  the output path (\<^verbatim>\<open>opts.output\<close>, else \<^verbatim>\<open>sitemap.xml\<close>) assigned, once, the buffer of
  the text of the sitemap, whose entries were collected from the files as given. Every
  other key keeps its value; when the output path was not a key it is the one new key,
  added last; when it was a key, its value is replaced and no key is added.
\<close>

theorem run_adds_output:
  assumes "plugin L opts = Inr cfg" and "run L cfg files = Inr files'"
    and "out = js_string L (output_file cfg)"
  shows "output_file cfg = js_or (member (init_opts opts) ''output'') (Str ''sitemap.xml'')
       \<and> (\<exists>es xml. sitemap_entries L cfg files = Inr es
             \<and> sitemap_toString L (hostname cfg) es = Inr xml
             \<and> files' = assign files out (Obj [(''contents'', Buffer xml)])
             \<and> map_of files' out = Some (Obj [(''contents'', Buffer xml)])
             \<and> (out \<notin> fst ` set files \<longrightarrow>
                  files' = files @ [(out, Obj [(''contents'', Buffer xml)])]))
       \<and> (\<forall>k. k \<noteq> out \<longrightarrow> map_of files' k = map_of files k)
       \<and> (out \<in> fst ` set files \<longrightarrow> map fst files' = map fst files)"
proof -
  from assms(1)
  have o: "output_file cfg = js_or (member (init_opts opts) ''output'') (Str ''sitemap.xml'')"
    by (auto simp: plugin_def Let_def split: if_splits sum.splits bool.splits)
  from assms(2,3) obtain es xml where
    es: "sitemap_entries L cfg files = Inr es" and
    xml: "sitemap_toString L (hostname cfg) es = Inr xml" and
    f: "files' = assign files out (Obj [(''contents'', Buffer xml)])"
    by (auto simp: run_def split: sum.splits)
  from f have "map_of files' out = Some (Obj [(''contents'', Buffer xml)])"
    and "out \<notin> fst ` set files \<longrightarrow> files' = files @ [(out, Obj [(''contents'', Buffer xml)])]"
    and "\<forall>k. k \<noteq> out \<longrightarrow> map_of files' k = map_of files k"
    and "out \<in> fst ` set files \<longrightarrow> map fst files' = map fst files"
    by (simp_all add: map_of_assign assign_absent keys_assign_present)
  with o es xml f show ?thesis by blast
qed

text \<open>A build of one page: the page keeps its value and \<^verbatim>\<open>sitemap.xml\<close> is added after it.\<close>

theorem run_adds_output_witness:
  \<open>\<exists>files'. run (ref_libs no_disk) (default_config ''http://example.com'')
                [(''index.html'', Obj [(''title'', Str ''Home'')])] = Inr files'
     \<and> map fst files' = [''index.html'', ''sitemap.xml'']
     \<and> map_of files' ''index.html'' = Some (Obj [(''title'', Str ''Home'')])
     \<and> map_of files' ''sitemap.xml''
         = Some (Obj [(''contents'',
                   Buffer (''<?xml version="1.0" encoding="UTF-8"?>''
                           @ ''<urlset xmlns="http://www.sitemaps.org/schemas/sitemap/0.9">''
                           @ ''<url><loc>http://example.com/index.html/</loc>''
                           @ ''<changefreq>weekly</changefreq><priority>0.5</priority></url>''
                           @ ''</urlset>''))])\<close>
proof -
  let ?R = "ref_libs no_disk"
  let ?cfg = "default_config ''http://example.com''"
  let ?files = "[(''index.html'', Obj [(''title'', Str ''Home'')])]"
  have p: "plugin ?R (Str ''http://example.com'') = Inr ?cfg"
    by (simp add: plugin_defaults)
  obtain files' where r: "run ?R ?cfg ?files = Inr files'"
    by (cases "run ?R ?cfg ?files") (simp_all, code_simp)
  have o: "''sitemap.xml'' = js_string ?R (output_file ?cfg)"
    by (simp add: default_config_def)
  have es: "sitemap_entries ?R ?cfg ?files
            = Inr [Obj [(''changefreq'', Str ''weekly''), (''priority'', Num (Fin (1 / 2))),
                        (''url'', Str ''index.html/'')]]"
    by code_simp
  have xml: \<open>sitemap_toString ?R (hostname ?cfg)
               [Obj [(''changefreq'', Str ''weekly''), (''priority'', Num (Fin (1 / 2))),
                     (''url'', Str ''index.html/'')]]
             = Inr (''<?xml version="1.0" encoding="UTF-8"?>''
                           @ ''<urlset xmlns="http://www.sitemaps.org/schemas/sitemap/0.9">''
                           @ ''<url><loc>http://example.com/index.html/</loc>''
                           @ ''<changefreq>weekly</changefreq><priority>0.5</priority></url>''
                           @ ''</urlset>'')\<close>
    by code_simp
  from run_adds_output [OF p r o] es xml
  have \<open>files' = ?files @ [(''sitemap.xml'', Obj [(''contents'',
                   Buffer (''<?xml version="1.0" encoding="UTF-8"?>''
                           @ ''<urlset xmlns="http://www.sitemaps.org/schemas/sitemap/0.9">''
                           @ ''<url><loc>http://example.com/index.html/</loc>''
                           @ ''<changefreq>weekly</changefreq><priority>0.5</priority></url>''
                           @ ''</urlset>''))])]\<close>
    by auto
  with r show ?thesis by auto
qed

end
